theory Spec2Isabelle
  imports Main
begin

section \<open>The browser environment of theme-toggle.js\<close>

text \<open>
  The script is one closure over the browser: the document (root element, body, selector
  queries), \<open>localStorage\<close>, the two event targets and the console. Every call into the
  browser that the script guards with \<open>try\<close> may raise; the value raised is a
  \<open>js_error\<close>.
\<close>

datatype js_error = TypeError | DOMException string

text \<open>What a property that refers to a node can hold.\<close>

datatype js_ref = Null | Undefined | Node nat

text \<open>
  An element as the script sees it in \<open>clickThemeToggleButton\<close>:
  \<^item> \<open>offsetParent\<close>: \<open>null\<close> on an element that is not rendered, a node on one
    that is, and \<open>undefined\<close> on an element that is no \<open>HTMLElement\<close>;
  \<^item> \<open>click_raises\<close>: what \<open>click()\<close> raises, if anything. \<open>click\<close> is a
    method of \<open>HTMLElement\<close> only: on an SVG element matched by an attribute selector
    the call is a \<open>TypeError\<close>;
  \<^item> \<open>svg\<close>: the \<open>outerHTML\<close> of the element that \<open>querySelector('svg')\<close>
    finds below it, \<open>None\<close> for \<open>null\<close>.
\<close>

record element =
  node :: nat
  offsetParent :: js_ref
  click_raises :: "js_error option"
  svg :: "string option"

record custom_event =
  event_type :: string
  detail_theme :: string

datatype event_target = Document | Window

record keyboard_event =
  ctrlKey :: bool
  metaKey :: bool
  shiftKey :: bool
  key :: string
  keyCode :: nat
  defaultPrevented :: bool
  propagationStopped :: bool

text \<open>
  The state the script reads and writes.
  \<^item> \<open>html_classList\<close>, \<open>html_attributes\<close>: class tokens and attributes of
    \<open>document.documentElement\<close>;
  \<^item> \<open>body_classList\<close>: class tokens of \<open>document.body\<close>, \<open>None\<close> when
    \<open>document.body\<close> is \<open>null\<close>;
  \<^item> \<open>items\<close>: the contents of \<open>localStorage\<close>; \<open>getItem_raises\<close> and
    \<open>setItem_raises\<close> say, per key, what the call raises (access denied, quota);
  \<^item> \<open>querySelector\<close>, \<open>querySelectorAll\<close>: the answers of the document to a
    selector: an error, or the first match (\<open>None\<close> for \<open>null\<close>), or all matches;
  \<^item> \<open>toLowerCase\<close>: \<open>String.prototype.toLowerCase\<close> of the engine. It follows
    the Unicode case mappings (U+212A KELVIN SIGN becomes \<open>k\<close>), so it is taken from
    the environment; a string is its sequence of bytes in UTF-8;
  \<^item> \<open>clicked\<close>: the nodes on which \<open>click()\<close> returned, in order. What the host's
    own listeners do on a click is not part of the script;
  \<^item> \<open>dispatched\<close>: the events handed to \<open>dispatchEvent\<close>, with their target;
  \<^item> \<open>console\<close>: the calls of \<open>console.warn\<close>.
\<close>

record page =
  html_classList :: "string list"
  html_attributes :: "string \<rightharpoonup> string"
  body_classList :: "string list option"
  items :: "string \<rightharpoonup> string"
  getItem_raises :: "string \<Rightarrow> js_error option"
  setItem_raises :: "string \<Rightarrow> js_error option"
  querySelector :: "string \<Rightarrow> js_error + element option"
  querySelectorAll :: "string \<Rightarrow> js_error + element list"
  toLowerCase :: "string \<Rightarrow> string"
  clicked :: "nat list"
  dispatched :: "(event_target \<times> custom_event) list"
  console :: "(string \<times> js_error) list"

text \<open>
  A statement runs on a page and completes normally (\<open>None\<close>) or abruptly with the
  error raised (\<open>Some e\<close>); either way the page is the one reached at that moment, so
  what was written before a \<open>throw\<close> stays written.
\<close>

type_synonym stmt = "page \<Rightarrow> js_error option \<times> page"

fun block :: "stmt list \<Rightarrow> stmt" where
  "block [] s = (None, s)"
| "block (st # sts) s =
     (case st s of (None, s') \<Rightarrow> block sts s' | (Some e, s') \<Rightarrow> (Some e, s'))"

definition try_catch :: "stmt \<Rightarrow> (js_error \<Rightarrow> stmt) \<Rightarrow> stmt" where
  "try_catch body handler s =
     (case body s of (None, s') \<Rightarrow> (None, s') | (Some e, s') \<Rightarrow> handler e s')"

subsection \<open>DOMTokenList, attributes, storage, events, console\<close>

definition classList_contains :: "string \<Rightarrow> string list \<Rightarrow> bool" where
  "classList_contains tok cs = (tok \<in> set cs)"

definition classList_add :: "string \<Rightarrow> string list \<Rightarrow> string list" where
  "classList_add tok cs = (if tok \<in> set cs then cs else cs @ [tok])"

definition classList_remove :: "string \<Rightarrow> string list \<Rightarrow> string list" where
  "classList_remove tok cs = filter (\<lambda>c. c \<noteq> tok) cs"

definition html_classList_add :: "string \<Rightarrow> stmt" where
  "html_classList_add tok s =
     (None, s\<lparr>html_classList := classList_add tok (html_classList s)\<rparr>)"

definition html_classList_remove :: "string \<Rightarrow> stmt" where
  "html_classList_remove tok s =
     (None, s\<lparr>html_classList := classList_remove tok (html_classList s)\<rparr>)"

definition html_setAttribute :: "string \<Rightarrow> string \<Rightarrow> stmt" where
  "html_setAttribute name v s =
     (None, s\<lparr>html_attributes := (html_attributes s)(name \<mapsto> v)\<rparr>)"

text \<open>\<open>body.classList\<close> on a \<open>null\<close> body is a \<open>TypeError\<close>.\<close>

definition body_classList_add :: "string \<Rightarrow> stmt" where
  "body_classList_add tok s =
     (case body_classList s of
        None \<Rightarrow> (Some TypeError, s)
      | Some cs \<Rightarrow> (None, s\<lparr>body_classList := Some (classList_add tok cs)\<rparr>))"

definition body_classList_remove :: "string \<Rightarrow> stmt" where
  "body_classList_remove tok s =
     (case body_classList s of
        None \<Rightarrow> (Some TypeError, s)
      | Some cs \<Rightarrow> (None, s\<lparr>body_classList := Some (classList_remove tok cs)\<rparr>))"

definition localStorage_getItem :: "string \<Rightarrow> page \<Rightarrow> js_error + string option" where
  "localStorage_getItem k s =
     (case getItem_raises s k of Some e \<Rightarrow> Inl e | None \<Rightarrow> Inr (items s k))"

definition localStorage_setItem :: "string \<Rightarrow> string \<Rightarrow> stmt" where
  "localStorage_setItem k v s =
     (case setItem_raises s k of
        Some e \<Rightarrow> (Some e, s)
      | None \<Rightarrow> (None, s\<lparr>items := (items s)(k \<mapsto> v)\<rparr>))"

definition dispatchEvent :: "event_target \<Rightarrow> custom_event \<Rightarrow> stmt" where
  "dispatchEvent target ev s = (None, s\<lparr>dispatched := dispatched s @ [(target, ev)]\<rparr>)"

definition console_warn :: "string \<Rightarrow> js_error \<Rightarrow> stmt" where
  "console_warn msg e s = (None, s\<lparr>console := console s @ [(msg, e)]\<rparr>)"

text \<open>
  \<open>click()\<close> on an element: it raises, or it returns and the node is recorded.
\<close>

definition click :: "element \<Rightarrow> stmt" where
  "click button s =
     (case click_raises button of
        Some e \<Rightarrow> (Some e, s)
      | None \<Rightarrow> (None, s\<lparr>clicked := clicked s @ [node button]\<rparr>))"

text \<open>
  A value in a condition: \<open>null\<close> and the empty string are falsy, every other string
  is truthy.
\<close>

definition truthy :: "string option \<Rightarrow> bool" where
  "truthy v = (case v of None \<Rightarrow> False | Some t \<Rightarrow> t \<noteq> [])"

text \<open>
  What \<open>String.prototype.toLowerCase\<close> does to a string of ASCII characters: the
  letters A to Z are lowered, every other character is kept. The concrete pages below
  use it on markup that is ASCII.
\<close>

definition ascii_toLowerCase_char :: "char \<Rightarrow> char" where
  "ascii_toLowerCase_char c =
     (let n = (of_char c :: nat) in if 65 \<le> n \<and> n \<le> 90 then char_of (n + 32) else c)"

definition ascii_toLowerCase :: "string \<Rightarrow> string" where
  "ascii_toLowerCase = map ascii_toLowerCase_char"

text \<open>
  \<open>String.prototype.includes\<close> (as \<open>includes_str\<close>). The four needles of the
  script are ASCII, and an ASCII needle occurs in a string exactly when its bytes occur
  in the UTF-8 bytes of the string.
\<close>

fun includes_str :: "string \<Rightarrow> string \<Rightarrow> bool" where
  "includes_str [] needle = (needle = [])"
| "includes_str (c # cs) needle =
     (take (length needle) (c # cs) = needle \<or> includes_str cs needle)"

section \<open>theme-toggle.js\<close>

definition THEME_STORAGE_KEY :: string where
  "THEME_STORAGE_KEY = ''mintlify-theme-preference''"

definition MINTLIFY_THEME_KEY :: string where
  "MINTLIFY_THEME_KEY = ''theme''"

subsection \<open>clickThemeToggleButton\<close>

definition selectors :: "string list" where
  \<open>selectors =
     [''button[aria-label*="theme"]'',
      ''button[aria-label*="dark"]'',
      ''button[aria-label*="light"]'',
      ''button[aria-label*="mode"]'',
      ''[data-testid*="theme"]'',
      ''[data-testid*="toggle"]'',
      ''.theme-toggle'',
      ''[class*="theme-toggle"]'',
      ''[class*="mode-toggle"]'']\<close>

text \<open>
  The first loop. The result is \<open>True\<close> for \<open>return true\<close> and \<open>False\<close> when the
  loop runs out. An error of \<open>querySelector\<close> or of \<open>click()\<close> is caught and the loop
  goes on with the next selector.
\<close>

fun try_selectors :: "string list \<Rightarrow> page \<Rightarrow> bool \<times> page" where
  "try_selectors [] s = (False, s)"
| "try_selectors (selector # rest) s =
     (case querySelector s selector of
        Inl e \<Rightarrow> try_selectors rest s
      | Inr None \<Rightarrow> try_selectors rest s
      | Inr (Some button) \<Rightarrow>
          if offsetParent button \<noteq> Null then
            (case click button s of
               (None, s') \<Rightarrow> (True, s')
             | (Some e, s') \<Rightarrow> try_selectors rest s')
          else try_selectors rest s)"

definition icon_hint :: "string \<Rightarrow> bool" where
  "icon_hint svgHTML =
     (includes_str svgHTML ''sun'' \<or> includes_str svgHTML ''moon'' \<or>
      includes_str svgHTML ''light'' \<or> includes_str svgHTML ''dark'')"

text \<open>
  The second loop, over \<open>allButtons\<close>: \<open>Inr True\<close> for \<open>return true\<close>,
  \<open>Inr False\<close> when the loop runs out, \<open>Inl e\<close> when \<open>click()\<close> raises \<open>e\<close>.
\<close>

fun scan_buttons :: "element list \<Rightarrow> page \<Rightarrow> (js_error + bool) \<times> page" where
  "scan_buttons [] s = (Inr False, s)"
| "scan_buttons (button # rest) s =
     (if offsetParent button = Null then scan_buttons rest s
      else
        (case svg button of
           None \<Rightarrow> scan_buttons rest s
         | Some outerHTML \<Rightarrow>
             (let svgHTML = toLowerCase s outerHTML in
              if icon_hint svgHTML then
                (case click button s of
                   (None, s') \<Rightarrow> (Inr True, s')
                 | (Some e, s') \<Rightarrow> (Inl e, s'))
              else scan_buttons rest s)))"

text \<open>
  The whole function, with the completion the caller sees: \<open>Inr b\<close> for
  \<open>return b\<close>, \<open>Inl e\<close> for an error that leaves the function. The second
  \<open>try\<close> has an empty \<open>catch\<close>, after which the function returns \<open>false\<close>.
\<close>

definition clickThemeToggleButton :: "page \<Rightarrow> (js_error + bool) \<times> page" where
  "clickThemeToggleButton s =
     (case try_selectors selectors s of
        (True, s') \<Rightarrow> (Inr True, s')
      | (False, s') \<Rightarrow>
          (case querySelectorAll s' ''button'' of
             Inl e \<Rightarrow> (Inr False, s')
           | Inr allButtons \<Rightarrow>
               (case scan_buttons allButtons s' of
                  (Inr True, s'') \<Rightarrow> (Inr True, s'')
                | (Inr False, s'') \<Rightarrow> (Inr False, s'')
                | (Inl e, s'') \<Rightarrow> (Inr False, s''))))"

subsection \<open>toggleTheme\<close>

text \<open>
  \<open>isDark\<close>: the three tests are joined by \<open>||\<close>, so \<open>body.classList\<close> is read
  only when the two tests on the root element are false.
\<close>

definition isDark :: "page \<Rightarrow> js_error + bool" where
  "isDark s =
     (if classList_contains ''dark'' (html_classList s) then Inr True
      else if html_attributes s ''data-theme'' = Some ''dark'' then Inr True
      else (case body_classList s of
              None \<Rightarrow> Inl TypeError
            | Some cs \<Rightarrow> Inr (classList_contains ''dark'' cs)))"

definition themeChangeEvent :: "bool \<Rightarrow> custom_event" where
  "themeChangeEvent dark =
     \<lparr>event_type = ''themechange'', detail_theme = (if dark then ''light'' else ''dark'')\<rparr>"

definition toggleTheme_try :: stmt where
  "toggleTheme_try s =
     (case isDark s of
        Inl e \<Rightarrow> (Some e, s)
      | Inr dark \<Rightarrow>
          block
            ((if dark then
                [html_classList_remove ''dark'',
                 html_setAttribute ''data-theme'' ''light'',
                 body_classList_remove ''dark'',
                 localStorage_setItem THEME_STORAGE_KEY ''light'',
                 localStorage_setItem MINTLIFY_THEME_KEY ''light'']
              else
                [html_classList_add ''dark'',
                 html_setAttribute ''data-theme'' ''dark'',
                 body_classList_add ''dark'',
                 localStorage_setItem THEME_STORAGE_KEY ''dark'',
                 localStorage_setItem MINTLIFY_THEME_KEY ''dark''])
             @ [dispatchEvent Document (themeChangeEvent dark),
                dispatchEvent Window (themeChangeEvent dark)]) s)"

definition toggleTheme :: stmt where
  "toggleTheme = try_catch toggleTheme_try (console_warn ''Theme toggle failed:'')"

subsection \<open>applySavedTheme\<close>

text \<open>
  \<open>localStorage.getItem(THEME_STORAGE_KEY) || localStorage.getItem(MINTLIFY_THEME_KEY)\<close>:
  the second key is read only when the first value is falsy.
\<close>

definition savedTheme :: "page \<Rightarrow> js_error + string option" where
  "savedTheme s =
     (case localStorage_getItem THEME_STORAGE_KEY s of
        Inl e \<Rightarrow> Inl e
      | Inr v \<Rightarrow> if truthy v then Inr v else localStorage_getItem MINTLIFY_THEME_KEY s)"

definition applySavedTheme_try :: stmt where
  "applySavedTheme_try s =
     (case savedTheme s of
        Inl e \<Rightarrow> (Some e, s)
      | Inr v \<Rightarrow>
          if truthy v then
            (if v = Some ''dark'' then
               block [html_classList_add ''dark'',
                      html_setAttribute ''data-theme'' ''dark'',
                      body_classList_add ''dark''] s
             else
               block [html_classList_remove ''dark'',
                      html_setAttribute ''data-theme'' ''light'',
                      body_classList_remove ''dark''] s)
          else (None, s))"

definition applySavedTheme :: stmt where
  "applySavedTheme =
     try_catch applySavedTheme_try (console_warn ''Could not apply saved theme:'')"

subsection \<open>handleKeyboardShortcut\<close>

definition is_shortcut :: "keyboard_event \<Rightarrow> bool" where
  "is_shortcut event =
     ((ctrlKey event \<or> metaKey event) \<and> shiftKey event \<and>
      (key event = ''L'' \<or> key event = ''l'' \<or> keyCode event = 76))"

text \<open>
  The handler returns its completion, the event (after \<open>preventDefault\<close> and
  \<open>stopPropagation\<close>) and the page.
\<close>

definition handleKeyboardShortcut ::
  "keyboard_event \<Rightarrow> page \<Rightarrow> js_error option \<times> keyboard_event \<times> page" where
  "handleKeyboardShortcut event s =
     (if is_shortcut event then
        (let event' = event\<lparr>defaultPrevented := True, propagationStopped := True\<rparr> in
         case clickThemeToggleButton s of
           (Inl e, s') \<Rightarrow> (Some e, event', s')
         | (Inr buttonClicked, s') \<Rightarrow>
             if \<not> buttonClicked then
               (case toggleTheme s' of (r, s'') \<Rightarrow> (r, event', s''))
             else (None, event', s'))
      else (None, event, s))"

section \<open>Vocabulary of the properties\<close>

text \<open>The two values the script stores and reports.\<close>

definition theme_name :: "bool \<Rightarrow> string" where
  "theme_name dark = (if dark then ''dark'' else ''light'')"

text \<open>
  What the two branches of \<open>toggleTheme\<close> do to the root element and the body
  (lines 75 to 77 and 82 to 84), on a body that may be missing.
\<close>

definition flip_presentation :: "bool \<Rightarrow> page \<Rightarrow> page" where
  "flip_presentation dark s =
     (if dark then
        s\<lparr>html_classList := classList_remove ''dark'' (html_classList s),
          html_attributes := (html_attributes s)(''data-theme'' \<mapsto> ''light''),
          body_classList := map_option (classList_remove ''dark'') (body_classList s)\<rparr>
      else
        s\<lparr>html_classList := classList_add ''dark'' (html_classList s),
          html_attributes := (html_attributes s)(''data-theme'' \<mapsto> ''dark''),
          body_classList := map_option (classList_add ''dark'') (body_classList s)\<rparr>)"

text \<open>
  The presentation attributes: whether the root element carries the class \<open>dark\<close>,
  its \<open>data-theme\<close> attribute, and whether the body (if there is one) carries the
  class \<open>dark\<close>.
\<close>

definition presentation :: "page \<Rightarrow> bool \<times> string option \<times> bool option" where
  "presentation s =
     (classList_contains ''dark'' (html_classList s),
      html_attributes s ''data-theme'',
      map_option (classList_contains ''dark'') (body_classList s))"

text \<open>
  The conditions under which the two loops of \<open>clickThemeToggleButton\<close> reach
  \<open>button.click()\<close>: line 29 for a selector, lines 42 to 49 for a button.
\<close>

definition selector_hit :: "page \<Rightarrow> string \<Rightarrow> bool" where
  "selector_hit s selector =
     (case querySelector s selector of
        Inr (Some button) \<Rightarrow> offsetParent button \<noteq> Null
      | _ \<Rightarrow> False)"

definition button_hit :: "page \<Rightarrow> element \<Rightarrow> bool" where
  "button_hit s button =
     (offsetParent button \<noteq> Null \<and>
      (case svg button of
         None \<Rightarrow> False
       | Some outerHTML \<Rightarrow> icon_hint (toLowerCase s outerHTML)))"

definition host_control_exists :: "page \<Rightarrow> bool" where
  "host_control_exists s =
     (list_ex (selector_hit s) selectors \<or>
      (case querySelectorAll s ''button'' of
         Inl e \<Rightarrow> False
       | Inr allButtons \<Rightarrow> list_ex (button_hit s) allButtons))"

text \<open>
  The element that the search activates, if any. For a selector it is the element that
  \<open>querySelector\<close> returns, when that element has an \<open>offsetParent\<close> other than
  \<open>null\<close> and its \<open>click()\<close> does not raise; the first selector of the list that
  has one decides. When no selector has one, it is the first button that reaches
  \<open>button.click()\<close>, when that \<open>click()\<close> does not raise.
\<close>

definition selector_target :: "page \<Rightarrow> string \<Rightarrow> element option" where
  "selector_target s selector =
     (case querySelector s selector of
        Inr (Some button) \<Rightarrow>
          if offsetParent button \<noteq> Null \<and> click_raises button = None then Some button
          else None
      | _ \<Rightarrow> None)"

definition search_target :: "page \<Rightarrow> element option" where
  "search_target s =
     (case List.map_filter (selector_target s) selectors of
        button # _ \<Rightarrow> Some button
      | [] \<Rightarrow>
          (case querySelectorAll s ''button'' of
             Inl e \<Rightarrow> None
           | Inr allButtons \<Rightarrow>
               (case find (button_hit s) allButtons of
                  None \<Rightarrow> None
                | Some button \<Rightarrow>
                    if click_raises button = None then Some button else None)))"

subsection \<open>Concrete pages\<close>

text \<open>
  A page in its default (light) presentation: no class, no \<open>data-theme\<close>, an empty
  storage that works, and no element that any selector matches.
\<close>

definition default_page :: page where
  "default_page =
     \<lparr>html_classList = [], html_attributes = Map.empty, body_classList = Some [],
      items = Map.empty, getItem_raises = (\<lambda>k. None), setItem_raises = (\<lambda>k. None),
      querySelector = (\<lambda>selector. Inr None), querySelectorAll = (\<lambda>selector. Inr []),
      toLowerCase = ascii_toLowerCase, clicked = [], dispatched = [], console = []\<rparr>"

text \<open>The same page in a browser that denies every access to the storage.\<close>

definition blocked_page :: page where
  "blocked_page =
     default_page\<lparr>getItem_raises := (\<lambda>k. Some (DOMException ''SecurityError'')),
                  setItem_raises := (\<lambda>k. Some (DOMException ''SecurityError''))\<rparr>"

text \<open>
  The default page with a storage that is full after one more item: the first key is
  written, the second is refused.
\<close>

definition quota_page :: page where
  "quota_page =
     default_page\<lparr>setItem_raises :=
       (\<lambda>k. if k = MINTLIFY_THEME_KEY then Some (DOMException ''QuotaExceededError'') else None)\<rparr>"

text \<open>
  A page whose host control is
  \<open><button aria-label="Switch appearance"><svg data-testid="theme-icon">...</svg></button>\<close>.
  The fifth selector finds the icon, and no other selector finds anything. The icon is no
  \<open>HTMLElement\<close>: its \<open>offsetParent\<close> is \<open>undefined\<close>, which is not
  \<open>null\<close>, and it has no \<open>click\<close> method. The button is rendered, and the markup
  of its icon has none of the four hints.
\<close>

definition svg_icon :: element where
  "svg_icon =
     \<lparr>node = 1, offsetParent = Undefined, click_raises = Some TypeError, svg = None\<rparr>"

definition appearance_button :: element where
  \<open>appearance_button =
     \<lparr>node = 2, offsetParent = Node 0, click_raises = None,
      svg = Some ''<svg data-testid="theme-icon"><path d="M12 3v18"></path></svg>''\<rparr>\<close>

definition svg_page :: page where
  \<open>svg_page =
     default_page
       \<lparr>querySelector :=
          (\<lambda>selector. if selector = ''[data-testid*="theme"]'' then Inr (Some svg_icon)
                       else Inr None),
        querySelectorAll :=
          (\<lambda>selector. if selector = ''button'' then Inr [appearance_button] else Inr [])\<rparr>\<close>

text \<open>A page with the host's own toggle button, found by the first selector.\<close>

definition host_button :: element where
  "host_button = \<lparr>node = 7, offsetParent = Node 0, click_raises = None, svg = None\<rparr>"

definition host_page :: page where
  \<open>host_page =
     default_page\<lparr>querySelector :=
       (\<lambda>selector. if selector = ''button[aria-label*="theme"]'' then Inr (Some host_button)
                    else Inr None)\<rparr>\<close>

text \<open>
  A page with both: the fifth selector finds the icon, whose \<open>click()\<close> raises, and
  the seventh finds the host's button.
\<close>

definition icon_and_button_page :: page where
  \<open>icon_and_button_page =
     default_page\<lparr>querySelector :=
       (\<lambda>selector. if selector = ''[data-testid*="theme"]'' then Inr (Some svg_icon)
                    else if selector = ''.theme-toggle'' then Inr (Some host_button)
                    else Inr None)\<rparr>\<close>

text \<open>
  A page whose only \<open>button\<close> element sits inside SVG markup, so it is no
  \<open>HTMLElement\<close> either; below it is an icon of a sun.
\<close>

definition foreign_button :: element where
  \<open>foreign_button =
     \<lparr>node = 3, offsetParent = Undefined, click_raises = Some TypeError,
      svg = Some ''<svg class="icon-sun"></svg>''\<rparr>\<close>

definition foreign_button_page :: page where
  "foreign_button_page =
     default_page\<lparr>querySelectorAll :=
       (\<lambda>selector. if selector = ''button'' then Inr [foreign_button] else Inr [])\<rparr>"

definition ctrl_shift_L :: keyboard_event where
  "ctrl_shift_L =
     \<lparr>ctrlKey = True, metaKey = False, shiftKey = True, key = ''L'', keyCode = 76,
      defaultPrevented = False, propagationStopped = False\<rparr>"

section \<open>Properties of toggleTheme\<close>

lemmas stmt_defs =
  html_classList_add_def html_classList_remove_def html_setAttribute_def
  body_classList_add_def body_classList_remove_def localStorage_setItem_def
  dispatchEvent_def console_warn_def

lemma toggleTheme_try_with_body:
  assumes "body_classList s = Some cs" and "isDark s = Inr d"
  shows "toggleTheme_try s =
     (case setItem_raises s THEME_STORAGE_KEY of
        Some e \<Rightarrow> (Some e, flip_presentation d s)
      | None \<Rightarrow>
          (case setItem_raises s MINTLIFY_THEME_KEY of
             Some e \<Rightarrow>
               (Some e, (flip_presentation d s)
                  \<lparr>items := (items s)(THEME_STORAGE_KEY \<mapsto> theme_name (\<not> d))\<rparr>)
           | None \<Rightarrow>
               (None, (flip_presentation d s)
                  \<lparr>items := (items s)(THEME_STORAGE_KEY \<mapsto> theme_name (\<not> d),
                                       MINTLIFY_THEME_KEY \<mapsto> theme_name (\<not> d)),
                    dispatched := dispatched s @
                      [(Document, themeChangeEvent d), (Window, themeChangeEvent d)]\<rparr>)))"
  using assms
  by (cases d) (simp_all add: toggleTheme_try_def stmt_defs flip_presentation_def theme_name_def
      split: option.splits)

lemma toggleTheme_try_no_body:
  assumes "body_classList s = None"
  shows "toggleTheme_try s =
     (case isDark s of
        Inl e \<Rightarrow> (Some e, s)
      | Inr d \<Rightarrow> (Some TypeError, flip_presentation d s))"
  using assms
  by (simp add: toggleTheme_try_def stmt_defs flip_presentation_def isDark_def
      split: option.splits sum.splits)

lemma isDark_with_body:
  "body_classList s = Some cs \<Longrightarrow>
   isDark s = Inr (classList_contains ''dark'' (html_classList s) \<or>
                   html_attributes s ''data-theme'' = Some ''dark'' \<or>
                   classList_contains ''dark'' cs)"
  by (simp add: isDark_def)

lemma isDark_flip:
  "body_classList s = Some cs \<Longrightarrow> isDark (flip_presentation d s) = Inr (\<not> d)"
  by (simp add: isDark_def flip_presentation_def classList_contains_def classList_add_def
      classList_remove_def)

lemma isDark_cong:
  "html_classList s = html_classList t \<Longrightarrow> html_attributes s = html_attributes t \<Longrightarrow>
   body_classList s = body_classList t \<Longrightarrow> isDark s = isDark t"
  by (simp add: isDark_def)

lemma themeChangeEvent_name:
  "themeChangeEvent d = \<lparr>event_type = ''themechange'', detail_theme = theme_name (\<not> d)\<rparr>"
  by (simp add: themeChangeEvent_def theme_name_def)

text \<open>
  The root element and the body after \<open>toggleTheme\<close>, whatever the storage does:
  untouched when \<open>isDark\<close> raises, flipped otherwise.
\<close>

lemma toggleTheme_dom:
  "html_classList (snd (toggleTheme s)) =
     (case isDark s of Inl e \<Rightarrow> html_classList s
      | Inr d \<Rightarrow> html_classList (flip_presentation d s))"
  "html_attributes (snd (toggleTheme s)) =
     (case isDark s of Inl e \<Rightarrow> html_attributes s
      | Inr d \<Rightarrow> html_attributes (flip_presentation d s))"
  "body_classList (snd (toggleTheme s)) =
     (case isDark s of Inl e \<Rightarrow> body_classList s
      | Inr d \<Rightarrow> body_classList (flip_presentation d s))"
proof -
  show "html_classList (snd (toggleTheme s)) =
     (case isDark s of Inl e \<Rightarrow> html_classList s
      | Inr d \<Rightarrow> html_classList (flip_presentation d s))"
  proof (cases "body_classList s")
    case None
    then show ?thesis
      by (simp add: toggleTheme_def try_catch_def toggleTheme_try_no_body console_warn_def
          split: sum.splits)
  next
    case (Some cs)
    then show ?thesis
      by (simp add: toggleTheme_def try_catch_def toggleTheme_try_with_body isDark_with_body
          console_warn_def flip_presentation_def split: option.splits)
  qed
  show "html_attributes (snd (toggleTheme s)) =
     (case isDark s of Inl e \<Rightarrow> html_attributes s
      | Inr d \<Rightarrow> html_attributes (flip_presentation d s))"
  proof (cases "body_classList s")
    case None
    then show ?thesis
      by (simp add: toggleTheme_def try_catch_def toggleTheme_try_no_body console_warn_def
          split: sum.splits)
  next
    case (Some cs)
    then show ?thesis
      by (simp add: toggleTheme_def try_catch_def toggleTheme_try_with_body isDark_with_body
          console_warn_def flip_presentation_def split: option.splits)
  qed
  show "body_classList (snd (toggleTheme s)) =
     (case isDark s of Inl e \<Rightarrow> body_classList s
      | Inr d \<Rightarrow> body_classList (flip_presentation d s))"
  proof (cases "body_classList s")
    case None
    then show ?thesis
      by (simp add: toggleTheme_def try_catch_def toggleTheme_try_no_body console_warn_def
          split: sum.splits)
  next
    case (Some cs)
    then show ?thesis
      by (simp add: toggleTheme_def try_catch_def toggleTheme_try_with_body isDark_with_body
          console_warn_def flip_presentation_def split: option.splits)
  qed
qed

lemmas eval_defs =
  default_page_def blocked_page_def toggleTheme_def try_catch_def toggleTheme_try_def isDark_def
  stmt_defs classList_contains_def classList_add_def classList_remove_def presentation_def
  THEME_STORAGE_KEY_def MINTLIFY_THEME_KEY_def theme_name_def themeChangeEvent_def

lemma flip_presentation_frame:
  "items (flip_presentation d s) = items s"
  "dispatched (flip_presentation d s) = dispatched s"
  "console (flip_presentation d s) = console s"
  "clicked (flip_presentation d s) = clicked s"
  by (simp_all add: flip_presentation_def)

text \<open>
  C1, as amended. The \<open>themechange\<close> event that \<open>toggleTheme\<close> dispatches on the
  document and on the window carries the new theme, the one active after the toggle and
  the opposite of the one active before it: \<open>detail.theme\<close> is
  \<open>isDark ? 'light' : 'dark'\<close>, with \<open>isDark\<close> read before the flip. The two events
  are dispatched exactly when the \<open>try\<close> block completes; when it raises, nothing is
  dispatched.
\<close>

theorem toggleTheme_event_carries_new_theme:
  "(fst (toggleTheme_try s) = None \<longrightarrow>
      (\<exists>d. isDark s = Inr d \<and> isDark (snd (toggleTheme s)) = Inr (\<not> d) \<and>
           dispatched (snd (toggleTheme s)) = dispatched s @
             [(Document, \<lparr>event_type = ''themechange'', detail_theme = theme_name (\<not> d)\<rparr>),
              (Window, \<lparr>event_type = ''themechange'', detail_theme = theme_name (\<not> d)\<rparr>)])) \<and>
   (fst (toggleTheme_try s) \<noteq> None \<longrightarrow> dispatched (snd (toggleTheme s)) = dispatched s)"
proof (cases "body_classList s")
  case None
  then show ?thesis
    by (simp add: toggleTheme_def try_catch_def toggleTheme_try_no_body console_warn_def
        flip_presentation_def split: sum.splits)
next
  case (Some cs)
  obtain d where d: "isDark s = Inr d"
    using Some by (simp add: isDark_with_body)
  have flip: "isDark ((flip_presentation d s)\<lparr>items := m, dispatched := es\<rparr>) = Inr (\<not> d)" for m es
    using isDark_flip [OF Some, of d]
      isDark_cong [of "(flip_presentation d s)\<lparr>items := m, dispatched := es\<rparr>" "flip_presentation d s"]
    by simp
  show ?thesis
    using Some d flip
    by (simp add: toggleTheme_def try_catch_def toggleTheme_try_with_body [OF Some d]
        console_warn_def themeChangeEvent_name flip_presentation_frame split: option.splits)
qed

text \<open>The theorem of C1 on the default page: the page was light, the events say dark.\<close>

theorem toggleTheme_event_carries_new_theme_witness:
  "fst (toggleTheme_try default_page) = None \<and>
   isDark default_page = Inr False \<and>
   dispatched (snd (toggleTheme default_page)) =
     [(Document, \<lparr>event_type = ''themechange'', detail_theme = ''dark''\<rparr>),
      (Window, \<lparr>event_type = ''themechange'', detail_theme = ''dark''\<rparr>)] \<and>
   isDark (snd (toggleTheme default_page)) = Inr True"
  using toggleTheme_event_carries_new_theme [of default_page]
  by (simp add: eval_defs)

text \<open>
  C1 as stated fails: on the default page the theme before the toggle is light, and the
  payload of both events is \<open>dark\<close>.
\<close>

theorem toggleTheme_event_pre_toggle_counterexample:
  "isDark default_page = Inr False \<and>
   theme_name False = ''light'' \<and>
   dispatched (snd (toggleTheme default_page)) =
     [(Document, \<lparr>event_type = ''themechange'', detail_theme = ''dark''\<rparr>),
      (Window, \<lparr>event_type = ''themechange'', detail_theme = ''dark''\<rparr>)]"
  by (simp add: eval_defs)

text \<open>
  C2 as stated fails on the default page: the first toggle sets \<open>data-theme\<close> to
  \<open>dark\<close>, the second to \<open>light\<close>, and the attribute was absent at the start.
\<close>

theorem toggleTheme_twice_counterexample:
  "presentation (snd (toggleTheme (snd (toggleTheme default_page)))) \<noteq>
   presentation default_page"
  by (simp add: eval_defs)

lemma presentation_toggle:
  "body_classList s = Some cs \<Longrightarrow> isDark s = Inr d \<Longrightarrow>
   presentation (snd (toggleTheme s)) = (\<not> d, Some (theme_name (\<not> d)), Some (\<not> d))"
  by (simp add: presentation_def toggleTheme_dom flip_presentation_def theme_name_def
      classList_contains_def classList_add_def classList_remove_def)

lemma body_toggle:
  "body_classList s = Some cs \<Longrightarrow> \<exists>cs'. body_classList (snd (toggleTheme s)) = Some cs'"
  by (simp add: toggleTheme_dom flip_presentation_def isDark_with_body)

text \<open>
  C2, as amended. On a page with a body, two toggles return the presentation attributes
  to their starting values exactly when the start is one of the two states that the
  toggle itself produces: the class \<open>dark\<close> on both the root element and the body with
  \<open>data-theme="dark"\<close>, or on neither with \<open>data-theme="light"\<close>. Whether the
  storage writes raise makes no difference.
\<close>

theorem toggleTheme_twice:
  assumes "body_classList s = Some cs"
  shows "(presentation (snd (toggleTheme (snd (toggleTheme s)))) = presentation s) =
         (classList_contains ''dark'' cs = classList_contains ''dark'' (html_classList s) \<and>
          html_attributes s ''data-theme'' =
            Some (theme_name (classList_contains ''dark'' (html_classList s))))"
proof -
  let ?d = "classList_contains ''dark'' (html_classList s) \<or>
            html_attributes s ''data-theme'' = Some ''dark'' \<or> classList_contains ''dark'' cs"
  have d: "isDark s = Inr ?d"
    using assms by (rule isDark_with_body)
  obtain cs' where cs': "body_classList (snd (toggleTheme s)) = Some cs'"
    using body_toggle [OF assms] by blast
  have "presentation (snd (toggleTheme s)) = (\<not> ?d, Some (theme_name (\<not> ?d)), Some (\<not> ?d))"
    using assms d by (rule presentation_toggle)
  then have d': "isDark (snd (toggleTheme s)) = Inr (\<not> ?d)"
    using cs' by (auto simp add: isDark_with_body presentation_def theme_name_def)
  have "presentation (snd (toggleTheme (snd (toggleTheme s)))) =
          (?d, Some (theme_name ?d), Some ?d)"
    using presentation_toggle [OF cs' d'] by simp
  then show ?thesis
    using assms by (auto simp add: presentation_def theme_name_def)
qed

text \<open>The theorem of C2 on the page reached by one toggle from the default page.\<close>

theorem toggleTheme_twice_witness:
  "body_classList (snd (toggleTheme default_page)) = Some [''dark''] \<and>
   presentation (snd (toggleTheme (snd (toggleTheme (snd (toggleTheme default_page)))))) =
   presentation (snd (toggleTheme default_page))"
proof -
  have b: "body_classList (snd (toggleTheme default_page)) = Some [''dark'']"
    by (simp add: eval_defs)
  show ?thesis
    using b toggleTheme_twice [OF b] by (simp add: eval_defs)
qed

lemma presentation_toggleTheme:
  "presentation (snd (toggleTheme s)) =
     (case isDark s of
        Inl e \<Rightarrow> presentation s
      | Inr d \<Rightarrow> (\<not> d, Some (theme_name (\<not> d)), map_option (\<lambda>b. \<not> d) (snd (snd (presentation s)))))"
  by (simp add: presentation_def toggleTheme_dom flip_presentation_def theme_name_def
      classList_contains_def classList_add_def classList_remove_def option.map_comp comp_def
      split: sum.splits)

lemma isDark_presentation:
  "isDark s =
     (case presentation s of
        (h, t, b) \<Rightarrow>
          if h \<or> t = Some ''dark'' then Inr True
          else (case b of None \<Rightarrow> Inl TypeError | Some dark \<Rightarrow> Inr dark))"
  by (simp add: isDark_def presentation_def split: option.splits)

text \<open>
  C8. What \<open>toggleTheme\<close> does to the presentation depends on the presentation only,
  never on the storage: two pages with the same presentation attributes (the class
  \<open>dark\<close> on the root element and on the body, and \<open>data-theme\<close>) have the same
  presentation attributes after the toggle, and two pages with the same class lists and
  root attributes have the same class lists and root attributes after it, whatever their
  storage holds and whether it raises.
\<close>

theorem toggleTheme_ignores_storage:
  "(presentation s = presentation t \<longrightarrow>
      presentation (snd (toggleTheme s)) = presentation (snd (toggleTheme t))) \<and>
   (html_classList s = html_classList t \<and> html_attributes s = html_attributes t \<and>
    body_classList s = body_classList t \<longrightarrow>
      html_classList (snd (toggleTheme s)) = html_classList (snd (toggleTheme t)) \<and>
      html_attributes (snd (toggleTheme s)) = html_attributes (snd (toggleTheme t)) \<and>
      body_classList (snd (toggleTheme s)) = body_classList (snd (toggleTheme t)))"
proof -
  have "presentation (snd (toggleTheme s)) = presentation (snd (toggleTheme t))"
    if same: "presentation s = presentation t"
  proof -
    have "isDark s = isDark t"
      by (simp add: isDark_presentation same)
    then show ?thesis
      by (simp add: presentation_toggleTheme same split: sum.splits)
  qed
  moreover have "html_classList (snd (toggleTheme s)) = html_classList (snd (toggleTheme t)) \<and>
      html_attributes (snd (toggleTheme s)) = html_attributes (snd (toggleTheme t)) \<and>
      body_classList (snd (toggleTheme s)) = body_classList (snd (toggleTheme t))"
    if "html_classList s = html_classList t" and "html_attributes s = html_attributes t"
      and "body_classList s = body_classList t"
    using that isDark_cong [OF that]
    by (simp add: toggleTheme_dom flip_presentation_def split: sum.splits)
  ultimately show ?thesis
    by blast
qed

text \<open>
  The theorem of C8 on the default page and on a page whose storage holds \<open>dark\<close>
  and refuses every access.
\<close>

theorem toggleTheme_ignores_storage_witness:
  "presentation default_page =
     presentation (blocked_page\<lparr>items := [THEME_STORAGE_KEY \<mapsto> ''dark'']\<rparr>) \<and>
   html_classList default_page =
     html_classList (blocked_page\<lparr>items := [THEME_STORAGE_KEY \<mapsto> ''dark'']\<rparr>) \<and>
   html_attributes default_page =
     html_attributes (blocked_page\<lparr>items := [THEME_STORAGE_KEY \<mapsto> ''dark'']\<rparr>) \<and>
   body_classList default_page =
     body_classList (blocked_page\<lparr>items := [THEME_STORAGE_KEY \<mapsto> ''dark'']\<rparr>) \<and>
   items default_page THEME_STORAGE_KEY = None \<and>
   presentation (snd (toggleTheme default_page)) =
     presentation
       (snd (toggleTheme (blocked_page\<lparr>items := [THEME_STORAGE_KEY \<mapsto> ''dark'']\<rparr>))) \<and>
   html_classList (snd (toggleTheme default_page)) =
     html_classList
       (snd (toggleTheme (blocked_page\<lparr>items := [THEME_STORAGE_KEY \<mapsto> ''dark'']\<rparr>))) \<and>
   html_attributes (snd (toggleTheme default_page)) =
     html_attributes
       (snd (toggleTheme (blocked_page\<lparr>items := [THEME_STORAGE_KEY \<mapsto> ''dark'']\<rparr>))) \<and>
   body_classList (snd (toggleTheme default_page)) =
     body_classList
       (snd (toggleTheme (blocked_page\<lparr>items := [THEME_STORAGE_KEY \<mapsto> ''dark'']\<rparr>)))"
proof -
  let ?t = "blocked_page\<lparr>items := [THEME_STORAGE_KEY \<mapsto> ''dark'']\<rparr>"
  have a: "html_classList default_page = html_classList ?t"
    and b: "html_attributes default_page = html_attributes ?t"
    and c: "body_classList default_page = body_classList ?t"
    and d: "items default_page THEME_STORAGE_KEY = None"
    and e: "presentation default_page = presentation ?t"
    by (simp_all add: default_page_def blocked_page_def presentation_def)
  show ?thesis
    using a b c d e toggleTheme_ignores_storage [of default_page ?t] by simp
qed

text \<open>
  C10. \<open>toggleTheme\<close> writes the class lists and \<open>data-theme\<close> before it writes
  the storage, and the \<open>catch\<close> restores nothing. So when a storage write raises (the
  first one, or the second one after the first went through), the presentation is already
  flipped, the storage is unchanged or holds the new theme under the first key only, no
  event is dispatched, and the warning is logged.
\<close>

theorem toggleTheme_not_atomic:
  assumes "body_classList s = Some cs" and "isDark s = Inr d"
    and "(setItem_raises s THEME_STORAGE_KEY = Some e) \<or>
         (setItem_raises s THEME_STORAGE_KEY = None \<and> setItem_raises s MINTLIFY_THEME_KEY = Some e)"
  shows "html_classList (snd (toggleTheme s)) = html_classList (flip_presentation d s) \<and>
         html_attributes (snd (toggleTheme s)) = html_attributes (flip_presentation d s) \<and>
         body_classList (snd (toggleTheme s)) = body_classList (flip_presentation d s) \<and>
         isDark (snd (toggleTheme s)) = Inr (\<not> d) \<and>
         items (snd (toggleTheme s)) =
           (if setItem_raises s THEME_STORAGE_KEY = None
            then (items s)(THEME_STORAGE_KEY \<mapsto> theme_name (\<not> d)) else items s) \<and>
         dispatched (snd (toggleTheme s)) = dispatched s \<and>
         console (snd (toggleTheme s)) = console s @ [(''Theme toggle failed:'', e)]"
proof -
  have dom: "html_classList (snd (toggleTheme s)) = html_classList (flip_presentation d s)"
    "html_attributes (snd (toggleTheme s)) = html_attributes (flip_presentation d s)"
    "body_classList (snd (toggleTheme s)) = body_classList (flip_presentation d s)"
    using assms(2) by (simp_all add: toggleTheme_dom)
  have "isDark (snd (toggleTheme s)) = isDark (flip_presentation d s)"
    using dom by (rule isDark_cong)
  then have dark: "isDark (snd (toggleTheme s)) = Inr (\<not> d)"
    using isDark_flip [OF assms(1)] by simp
  have rest: "items (snd (toggleTheme s)) =
           (if setItem_raises s THEME_STORAGE_KEY = None
            then (items s)(THEME_STORAGE_KEY \<mapsto> theme_name (\<not> d)) else items s) \<and>
         dispatched (snd (toggleTheme s)) = dispatched s \<and>
         console (snd (toggleTheme s)) = console s @ [(''Theme toggle failed:'', e)]"
    using assms(3)
    by (auto simp add: toggleTheme_def try_catch_def toggleTheme_try_with_body [OF assms(1,2)]
        console_warn_def flip_presentation_frame)
  show ?thesis
    using dom dark rest by simp
qed

text \<open>The theorem of C10 on a page whose storage refuses the second write.\<close>

theorem toggleTheme_not_atomic_witness:
  "body_classList quota_page = Some [] \<and> isDark quota_page = Inr False \<and>
   setItem_raises quota_page THEME_STORAGE_KEY = None \<and>
   setItem_raises quota_page MINTLIFY_THEME_KEY = Some (DOMException ''QuotaExceededError'') \<and>
   html_classList (snd (toggleTheme quota_page)) = [''dark''] \<and>
   html_attributes (snd (toggleTheme quota_page)) ''data-theme'' = Some ''dark'' \<and>
   body_classList (snd (toggleTheme quota_page)) = Some [''dark''] \<and>
   isDark (snd (toggleTheme quota_page)) = Inr True \<and>
   items (snd (toggleTheme quota_page)) THEME_STORAGE_KEY = Some ''dark'' \<and>
   items (snd (toggleTheme quota_page)) MINTLIFY_THEME_KEY = None \<and>
   dispatched (snd (toggleTheme quota_page)) = [] \<and>
   console (snd (toggleTheme quota_page)) =
     [(''Theme toggle failed:'', DOMException ''QuotaExceededError'')]"
proof -
  have a: "body_classList quota_page = Some []"
    and b: "isDark quota_page = Inr False"
    and c: "setItem_raises quota_page THEME_STORAGE_KEY = Some (DOMException ''QuotaExceededError'') \<or>
         (setItem_raises quota_page THEME_STORAGE_KEY = None \<and>
          setItem_raises quota_page MINTLIFY_THEME_KEY = Some (DOMException ''QuotaExceededError''))"
    by (simp_all add: quota_page_def eval_defs)
  show ?thesis
    using toggleTheme_not_atomic [OF a b c]
    by (simp add: quota_page_def default_page_def flip_presentation_def classList_add_def
        theme_name_def THEME_STORAGE_KEY_def MINTLIFY_THEME_KEY_def isDark_def
        classList_contains_def)
qed

section \<open>Properties of applySavedTheme\<close>

lemma savedTheme_items:
  assumes "getItem_raises s THEME_STORAGE_KEY = None"
    and "items s THEME_STORAGE_KEY = Some v \<and> v \<noteq> [] \<or>
         \<not> truthy (items s THEME_STORAGE_KEY) \<and> getItem_raises s MINTLIFY_THEME_KEY = None \<and>
         items s MINTLIFY_THEME_KEY = Some v"
  shows "savedTheme s = Inr (Some v)"
  using assms by (auto simp add: savedTheme_def localStorage_getItem_def truthy_def)

lemma applySavedTheme_dark:
  assumes "savedTheme s = Inr (Some ''dark'')"
  shows "snd (applySavedTheme s) =
     (case body_classList s of
        None \<Rightarrow> (flip_presentation False s)
                  \<lparr>console := console s @ [(''Could not apply saved theme:'', TypeError)]\<rparr>
      | Some cs \<Rightarrow> flip_presentation False s)"
  using assms
  by (simp add: applySavedTheme_def try_catch_def applySavedTheme_try_def truthy_def stmt_defs
      flip_presentation_def split: option.splits)

lemma applySavedTheme_other:
  assumes "savedTheme s = Inr (Some v)" and "v \<noteq> []" and "v \<noteq> ''dark''"
  shows "snd (applySavedTheme s) =
     (case body_classList s of
        None \<Rightarrow> (flip_presentation True s)
                  \<lparr>console := console s @ [(''Could not apply saved theme:'', TypeError)]\<rparr>
      | Some cs \<Rightarrow> flip_presentation True s)"
  using assms
  by (simp add: applySavedTheme_def try_catch_def applySavedTheme_try_def truthy_def stmt_defs
      flip_presentation_def split: option.splits)

text \<open>
  C5. \<open>applySavedTheme\<close> takes the value under the first key, or the value under the
  second key when the first value is missing or empty. When that value is \<open>dark\<close>, the
  root element gets the class \<open>dark\<close> and \<open>data-theme="dark"\<close>, and the body (on a
  page that has one) gets the class \<open>dark\<close>.
\<close>

theorem applySavedTheme_stored_dark:
  assumes "getItem_raises s THEME_STORAGE_KEY = None"
    and "items s THEME_STORAGE_KEY = Some ''dark'' \<or>
         \<not> truthy (items s THEME_STORAGE_KEY) \<and> getItem_raises s MINTLIFY_THEME_KEY = None \<and>
         items s MINTLIFY_THEME_KEY = Some ''dark''"
  shows "html_classList (snd (applySavedTheme s)) = classList_add ''dark'' (html_classList s) \<and>
         html_attributes (snd (applySavedTheme s)) =
           (html_attributes s)(''data-theme'' \<mapsto> ''dark'') \<and>
         body_classList (snd (applySavedTheme s)) =
           map_option (classList_add ''dark'') (body_classList s) \<and>
         presentation (snd (applySavedTheme s)) =
           (True, Some ''dark'', map_option (\<lambda>cs. True) (body_classList s))"
proof -
  have "savedTheme s = Inr (Some ''dark'')"
    using assms by (intro savedTheme_items) auto
  then show ?thesis
    by (simp add: applySavedTheme_dark flip_presentation_def presentation_def
        classList_contains_def classList_add_def option.map_comp comp_def split: option.splits)
qed

text \<open>The theorem of C5 on the default page with \<open>dark\<close> stored under the second key.\<close>

theorem applySavedTheme_stored_dark_witness:
  "getItem_raises (default_page\<lparr>items := [MINTLIFY_THEME_KEY \<mapsto> ''dark'']\<rparr>) THEME_STORAGE_KEY = None \<and>
   \<not> truthy (items (default_page\<lparr>items := [MINTLIFY_THEME_KEY \<mapsto> ''dark'']\<rparr>) THEME_STORAGE_KEY) \<and>
   getItem_raises (default_page\<lparr>items := [MINTLIFY_THEME_KEY \<mapsto> ''dark'']\<rparr>) MINTLIFY_THEME_KEY = None \<and>
   items (default_page\<lparr>items := [MINTLIFY_THEME_KEY \<mapsto> ''dark'']\<rparr>) MINTLIFY_THEME_KEY = Some ''dark'' \<and>
   presentation (snd (applySavedTheme (default_page\<lparr>items := [MINTLIFY_THEME_KEY \<mapsto> ''dark'']\<rparr>))) =
     (True, Some ''dark'', Some True)"
proof -
  let ?s = "default_page\<lparr>items := [MINTLIFY_THEME_KEY \<mapsto> ''dark'']\<rparr>"
  have a: "getItem_raises ?s THEME_STORAGE_KEY = None"
    by (simp add: default_page_def)
  have b: "\<not> truthy (items ?s THEME_STORAGE_KEY) \<and> getItem_raises ?s MINTLIFY_THEME_KEY = None \<and>
         items ?s MINTLIFY_THEME_KEY = Some ''dark''"
    by (simp add: default_page_def truthy_def THEME_STORAGE_KEY_def MINTLIFY_THEME_KEY_def)
  have c: "body_classList ?s = Some []"
    by (simp add: default_page_def)
  show ?thesis
    using a b applySavedTheme_stored_dark [OF a disjI2 [OF b]] by (simp add: c)
qed

text \<open>
  C9. When the value that \<open>applySavedTheme\<close> takes from the storage (first key, else
  second) is a non-empty string other than \<open>dark\<close>, the page is made light: the class
  \<open>dark\<close> is removed from the root element and from the body, and \<open>data-theme\<close> is
  set to \<open>light\<close>.
\<close>

theorem applySavedTheme_stored_other:
  assumes "getItem_raises s THEME_STORAGE_KEY = None"
    and "items s THEME_STORAGE_KEY = Some v \<or>
         \<not> truthy (items s THEME_STORAGE_KEY) \<and> getItem_raises s MINTLIFY_THEME_KEY = None \<and>
         items s MINTLIFY_THEME_KEY = Some v"
    and "v \<noteq> []" and "v \<noteq> ''dark''"
  shows "html_classList (snd (applySavedTheme s)) = classList_remove ''dark'' (html_classList s) \<and>
         html_attributes (snd (applySavedTheme s)) =
           (html_attributes s)(''data-theme'' \<mapsto> ''light'') \<and>
         body_classList (snd (applySavedTheme s)) =
           map_option (classList_remove ''dark'') (body_classList s) \<and>
         presentation (snd (applySavedTheme s)) =
           (False, Some ''light'', map_option (\<lambda>cs. False) (body_classList s))"
proof -
  have "savedTheme s = Inr (Some v)"
    using assms by (intro savedTheme_items) auto
  then show ?thesis
    using assms(3,4)
    by (simp add: applySavedTheme_other flip_presentation_def presentation_def
        classList_contains_def classList_remove_def option.map_comp comp_def split: option.splits)
qed

text \<open>
  The theorem of C9 on a page whose root element carries \<open>dark\<close> and whose storage
  holds \<open>blue\<close>.
\<close>

theorem applySavedTheme_stored_other_witness:
  "getItem_raises (default_page\<lparr>html_classList := [''dark''], items := [THEME_STORAGE_KEY \<mapsto> ''blue'']\<rparr>)
     THEME_STORAGE_KEY = None \<and>
   items (default_page\<lparr>html_classList := [''dark''], items := [THEME_STORAGE_KEY \<mapsto> ''blue'']\<rparr>)
     THEME_STORAGE_KEY = Some ''blue'' \<and>
   ''blue'' \<noteq> [] \<and> ''blue'' \<noteq> ''dark'' \<and>
   presentation (default_page\<lparr>html_classList := [''dark''], items := [THEME_STORAGE_KEY \<mapsto> ''blue'']\<rparr>) =
     (True, None, Some False) \<and>
   presentation
     (snd (applySavedTheme
        (default_page\<lparr>html_classList := [''dark''], items := [THEME_STORAGE_KEY \<mapsto> ''blue'']\<rparr>))) =
     (False, Some ''light'', Some False)"
proof -
  let ?s = "default_page\<lparr>html_classList := [''dark''], items := [THEME_STORAGE_KEY \<mapsto> ''blue'']\<rparr>"
  have a: "getItem_raises ?s THEME_STORAGE_KEY = None"
    by (simp add: default_page_def)
  have b: "items ?s THEME_STORAGE_KEY = Some ''blue''"
    by (simp add: default_page_def)
  have c: "''blue'' \<noteq> []" and d: "''blue'' \<noteq> ''dark''"
    by simp_all
  have e: "body_classList ?s = Some []" "presentation ?s = (True, None, Some False)"
    by (simp_all add: default_page_def presentation_def classList_contains_def)
  show ?thesis
    using a b applySavedTheme_stored_other [OF a disjI1 [OF b] c d] by (simp add: e)
qed

text \<open>
  C6. When neither key is in the storage, \<open>applySavedTheme\<close> leaves the class lists,
  the attributes of the root element and the storage as they are (also when reading the
  storage raises; then only the warning is logged).
\<close>

theorem applySavedTheme_nothing_stored:
  assumes "items s THEME_STORAGE_KEY = None" and "items s MINTLIFY_THEME_KEY = None"
  shows "html_classList (snd (applySavedTheme s)) = html_classList s \<and>
         html_attributes (snd (applySavedTheme s)) = html_attributes s \<and>
         body_classList (snd (applySavedTheme s)) = body_classList s \<and>
         items (snd (applySavedTheme s)) = items s"
  using assms
  by (simp add: applySavedTheme_def try_catch_def applySavedTheme_try_def savedTheme_def
      localStorage_getItem_def truthy_def console_warn_def split: option.splits)

text \<open>The theorem of C6 on the default page.\<close>

theorem applySavedTheme_nothing_stored_witness:
  "items default_page THEME_STORAGE_KEY = None \<and> items default_page MINTLIFY_THEME_KEY = None \<and>
   html_classList (snd (applySavedTheme default_page)) = [] \<and>
   html_attributes (snd (applySavedTheme default_page)) = Map.empty \<and>
   body_classList (snd (applySavedTheme default_page)) = Some [] \<and>
   items (snd (applySavedTheme default_page)) = Map.empty"
proof -
  have a: "items default_page THEME_STORAGE_KEY = None"
    and b: "items default_page MINTLIFY_THEME_KEY = None"
    by (simp_all add: default_page_def)
  show ?thesis
    using a b applySavedTheme_nothing_stored [OF a b] by (simp add: default_page_def)
qed


section \<open>Properties of clickThemeToggleButton and handleKeyboardShortcut\<close>

text \<open>The first loop clicks the target of the first selector that has one.\<close>

lemma try_selectors_search:
  "try_selectors sels s =
     (case List.map_filter (selector_target s) sels of
        [] \<Rightarrow> (False, s)
      | button # _ \<Rightarrow> (True, s\<lparr>clicked := clicked s @ [node button]\<rparr>))"
proof (induction sels)
  case Nil
  show ?case
    by (simp add: List.map_filter_simps)
next
  case (Cons selector rest)
  show ?case
  proof (cases "selector_target s selector")
    case None
    then have "try_selectors (selector # rest) s = try_selectors rest s"
      by (auto simp add: selector_target_def click_def split: sum.splits option.splits if_splits)
    then show ?thesis
      using None Cons.IH by (simp add: List.map_filter_simps)
  next
    case (Some button)
    then have "try_selectors (selector # rest) s =
        (True, s\<lparr>clicked := clicked s @ [node button]\<rparr>)"
      by (auto simp add: selector_target_def click_def split: sum.splits option.splits if_splits)
    then show ?thesis
      using Some by (simp add: List.map_filter_simps)
  qed
qed

text \<open>
  An error inside the first \<open>try\<close>, raised by \<open>querySelector\<close> or by
  \<open>click()\<close>, makes the first loop go on with the next selector.
\<close>

lemma try_selectors_continue:
  assumes "querySelector s selector = Inl e \<or>
           querySelector s selector = Inr (Some button) \<and> offsetParent button \<noteq> Null \<and>
           click_raises button = Some e"
  shows "try_selectors (selector # rest) s = try_selectors rest s"
  using assms by (auto simp add: click_def)

text \<open>The second loop calls \<open>click()\<close> on the first button that reaches it.\<close>

lemma scan_buttons_search:
  "scan_buttons bs s =
     (case find (button_hit s) bs of
        None \<Rightarrow> (Inr False, s)
      | Some button \<Rightarrow>
          (case click_raises button of
             None \<Rightarrow> (Inr True, s\<lparr>clicked := clicked s @ [node button]\<rparr>)
           | Some e \<Rightarrow> (Inl e, s)))"
proof (induction bs)
  case Nil
  show ?case by simp
next
  case (Cons button rest)
  show ?case
  proof (cases "button_hit s button")
    case False
    then have "scan_buttons (button # rest) s = scan_buttons rest s"
      by (auto simp add: button_hit_def split: option.splits)
    then show ?thesis
      using False Cons.IH by simp
  next
    case True
    then show ?thesis
      by (auto simp add: button_hit_def click_def split: option.splits)
  qed
qed

text \<open>
  \<open>clickThemeToggleButton\<close> clicks the target of the search and returns \<open>true\<close>,
  or it leaves the page as it is and returns \<open>false\<close>.
\<close>

lemma clickThemeToggleButton_search:
  "clickThemeToggleButton s =
     (case search_target s of
        Some button \<Rightarrow> (Inr True, s\<lparr>clicked := clicked s @ [node button]\<rparr>)
      | None \<Rightarrow> (Inr False, s))"
proof (cases "List.map_filter (selector_target s) selectors")
  case (Cons button more)
  then show ?thesis
    by (simp add: clickThemeToggleButton_def try_selectors_search search_target_def)
next
  case Nil
  then have miss: "try_selectors selectors s = (False, s)"
    by (simp add: try_selectors_search)
  show ?thesis
  proof (cases "querySelectorAll s ''button''")
    case (Inl e)
    then show ?thesis
      using Nil miss by (simp add: clickThemeToggleButton_def search_target_def)
  next
    case (Inr allButtons)
    then show ?thesis
      using Nil miss
      by (simp add: clickThemeToggleButton_def search_target_def scan_buttons_search
          split: option.splits)
  qed
qed

lemma map_filter_member:
  "List.map_filter f xs = y # ys \<Longrightarrow> \<exists>x \<in> set xs. f x = Some y"
  by (induction xs) (auto simp add: List.map_filter_simps split: option.splits)

lemma map_filter_empty:
  "\<forall>x \<in> set xs. f x = None \<Longrightarrow> List.map_filter f xs = []"
  by (induction xs) (auto simp add: List.map_filter_simps)

text \<open>The target of the search is an element that one of the two loops reaches.\<close>

lemma search_target_matches:
  assumes "search_target s = Some button"
  shows "((\<exists>selector \<in> set selectors. querySelector s selector = Inr (Some button)) \<and>
            offsetParent button \<noteq> Null \<or>
          (\<exists>allButtons. querySelectorAll s ''button'' = Inr allButtons \<and>
             button \<in> set allButtons \<and> button_hit s button)) \<and>
         click_raises button = None"
proof (cases "List.map_filter (selector_target s) selectors")
  case (Cons first more)
  then have "first = button"
    using assms by (simp add: search_target_def)
  then obtain selector where "selector \<in> set selectors"
    and "selector_target s selector = Some button"
    using map_filter_member [OF Cons] by auto
  then show ?thesis
    by (auto simp add: selector_target_def split: sum.splits option.splits if_splits)
next
  case Nil
  then obtain allButtons where all: "querySelectorAll s ''button'' = Inr allButtons"
    and found: "find (button_hit s) allButtons = Some button"
    and ok: "click_raises button = None"
    using assms
    by (auto simp add: search_target_def split: sum.splits option.splits if_splits)
  from found have "button \<in> set allButtons \<and> button_hit s button"
    by (auto simp add: find_Some_iff)
  then show ?thesis
    using all ok by auto
qed

lemma search_target_no_control:
  assumes "\<not> host_control_exists s"
  shows "search_target s = None"
proof -
  have "\<forall>selector \<in> set selectors. selector_target s selector = None"
    using assms
    by (auto simp add: host_control_exists_def list_ex_iff selector_hit_def selector_target_def
        split: sum.splits option.splits)
  then have none: "List.map_filter (selector_target s) selectors = []"
    by (rule map_filter_empty)
  show ?thesis
  proof (cases "querySelectorAll s ''button''")
    case (Inl e)
    then show ?thesis
      using none by (simp add: search_target_def)
  next
    case (Inr allButtons)
    then have "find (button_hit s) allButtons = None"
      using assms by (auto simp add: host_control_exists_def list_ex_iff find_None_iff)
    then show ?thesis
      using none Inr by (simp add: search_target_def)
  qed
qed

lemma clickThemeToggleButton_result:
  "clickThemeToggleButton s = (Inr False, s) \<or>
   (\<exists>button.
      ((\<exists>selector \<in> set selectors. querySelector s selector = Inr (Some button)) \<and>
         offsetParent button \<noteq> Null \<or>
       (\<exists>allButtons. querySelectorAll s ''button'' = Inr allButtons \<and>
          button \<in> set allButtons \<and> button_hit s button)) \<and>
      click_raises button = None \<and>
      clickThemeToggleButton s = (Inr True, s\<lparr>clicked := clicked s @ [node button]\<rparr>))"
proof (cases "search_target s")
  case None
  then show ?thesis
    by (simp add: clickThemeToggleButton_search)
next
  case (Some button)
  then show ?thesis
    using search_target_matches [OF Some] by (auto simp add: clickThemeToggleButton_search)
qed

lemma try_catch_warn:
  "fst (try_catch body (console_warn msg) s) = None"
  "fst (body s) = Some e \<Longrightarrow>
   console (snd (try_catch body (console_warn msg) s)) = console (snd (body s)) @ [(msg, e)]"
  "fst (body s) = None \<Longrightarrow>
   console (snd (try_catch body (console_warn msg) s)) = console (snd (body s))"
  by (cases "body s"; auto simp add: try_catch_def console_warn_def split: option.splits)+

lemmas click_eval_defs =
  clickThemeToggleButton_def selectors_def click_def host_control_exists_def selector_hit_def
  button_hit_def handleKeyboardShortcut_def is_shortcut_def ctrl_shift_L_def
  svg_page_def svg_icon_def appearance_button_def host_page_def host_button_def
  icon_and_button_page_def foreign_button_page_def foreign_button_def
  icon_hint_def ascii_toLowerCase_def ascii_toLowerCase_char_def
  search_target_def selector_target_def List.map_filter_simps

text \<open>
  C3, as amended. When the shortcut is pressed, the handler prevents the default action,
  stops the propagation and searches for a host control. The search takes the selectors
  in their order and activates the element that \<open>querySelector\<close> returns for the
  first selector where that element has an \<open>offsetParent\<close> other than \<open>null\<close> and
  its \<open>click()\<close> does not raise; a selector whose query or whose \<open>click()\<close> raises is
  passed over. When no selector gives such an element, the search activates the first
  button that has an \<open>offsetParent\<close> other than \<open>null\<close> and an \<open>svg\<close> whose
  lower-cased markup contains sun, moon, light or dark, provided its \<open>click()\<close> does
  not raise. When an element is activated the handler does nothing else: the storage,
  the class lists and the attributes are as before and no event is dispatched. When none
  is activated, and so whenever no host control exists, the handler does what
  \<open>toggleTheme\<close> does.
\<close>

theorem handleKeyboardShortcut_prefers_host_control:
  assumes "is_shortcut event"
  shows "handleKeyboardShortcut event s =
           (case search_target s of
              Some button \<Rightarrow>
                (None, event\<lparr>defaultPrevented := True, propagationStopped := True\<rparr>,
                 s\<lparr>clicked := clicked s @ [node button]\<rparr>)
            | None \<Rightarrow>
                (fst (toggleTheme s), event\<lparr>defaultPrevented := True, propagationStopped := True\<rparr>,
                 snd (toggleTheme s))) \<and>
         (\<forall>button. search_target s = Some button \<longrightarrow>
            ((\<exists>selector \<in> set selectors. querySelector s selector = Inr (Some button)) \<and>
               offsetParent button \<noteq> Null \<or>
             (\<exists>allButtons. querySelectorAll s ''button'' = Inr allButtons \<and>
                button \<in> set allButtons \<and> button_hit s button)) \<and>
            click_raises button = None \<and>
            items (snd (snd (handleKeyboardShortcut event s))) = items s) \<and>
         (\<not> host_control_exists s \<longrightarrow> search_target s = None)"
proof -
  have run: "handleKeyboardShortcut event s =
           (case search_target s of
              Some button \<Rightarrow>
                (None, event\<lparr>defaultPrevented := True, propagationStopped := True\<rparr>,
                 s\<lparr>clicked := clicked s @ [node button]\<rparr>)
            | None \<Rightarrow>
                (fst (toggleTheme s), event\<lparr>defaultPrevented := True, propagationStopped := True\<rparr>,
                 snd (toggleTheme s)))"
    using assms
    by (simp add: handleKeyboardShortcut_def clickThemeToggleButton_search
        split: option.splits prod.splits)
  have "items (snd (snd (handleKeyboardShortcut event s))) = items s"
    if "search_target s = Some button" for button
    using that by (simp add: run)
  then show ?thesis
    using run search_target_matches [of s] search_target_no_control [of s] by blast
qed

text \<open>
  The theorem of C3 on the page with the host's button, which is clicked; on the page
  where the icon is found first and raises, and the button is clicked all the same; and
  on the default page, where nothing matches and the manual toggle runs.
\<close>

theorem handleKeyboardShortcut_prefers_host_control_witness:
  "is_shortcut ctrl_shift_L \<and>
   search_target host_page = Some host_button \<and>
   handleKeyboardShortcut ctrl_shift_L host_page =
     (None, ctrl_shift_L\<lparr>defaultPrevented := True, propagationStopped := True\<rparr>,
      host_page\<lparr>clicked := [7]\<rparr>) \<and>
   items (snd (snd (handleKeyboardShortcut ctrl_shift_L host_page))) = items host_page \<and>
   search_target icon_and_button_page = Some host_button \<and>
   handleKeyboardShortcut ctrl_shift_L icon_and_button_page =
     (None, ctrl_shift_L\<lparr>defaultPrevented := True, propagationStopped := True\<rparr>,
      icon_and_button_page\<lparr>clicked := [7]\<rparr>) \<and>
   \<not> host_control_exists default_page \<and>
   handleKeyboardShortcut ctrl_shift_L default_page =
     (None, ctrl_shift_L\<lparr>defaultPrevented := True, propagationStopped := True\<rparr>,
      snd (toggleTheme default_page))"
proof -
  have a: "is_shortcut ctrl_shift_L"
    by (simp add: is_shortcut_def ctrl_shift_L_def)
  have b: "search_target host_page = Some host_button"
    by (simp add: click_eval_defs)
  have c: "search_target icon_and_button_page = Some host_button"
    by (simp add: click_eval_defs)
  have d: "\<not> host_control_exists default_page"
    by (simp add: click_eval_defs default_page_def)
  have e: "fst (toggleTheme default_page) = None"
    by (simp add: toggleTheme_def try_catch_warn(1))
  have f: "clicked host_page = []" "clicked icon_and_button_page = []" "node host_button = 7"
    by (simp_all add: host_page_def icon_and_button_page_def default_page_def host_button_def)
  show ?thesis
    using a b c d e f
      handleKeyboardShortcut_prefers_host_control [OF a, of host_page]
      handleKeyboardShortcut_prefers_host_control [OF a, of icon_and_button_page]
      handleKeyboardShortcut_prefers_host_control [OF a, of default_page]
    by simp
qed

text \<open>
  C3 as stated fails on the page with the icon: the fifth selector matches an element
  with an \<open>offsetParent\<close> other than \<open>null\<close>, its \<open>click()\<close> raises, the error is
  caught, no other selector matches, the markup of the button's icon has no hint, and the
  handler falls back to \<open>toggleTheme\<close>, which writes both storage keys; no element is
  clicked.
\<close>

theorem handleKeyboardShortcut_host_control_counterexample:
  \<open>is_shortcut ctrl_shift_L \<and>
   querySelector svg_page ''[data-testid*="theme"]'' = Inr (Some svg_icon) \<and>
   offsetParent svg_icon \<noteq> Null \<and>
   host_control_exists svg_page \<and>
   querySelectorAll svg_page ''button'' = Inr [appearance_button] \<and>
   \<not> button_hit svg_page appearance_button \<and>
   clicked (snd (snd (handleKeyboardShortcut ctrl_shift_L svg_page))) = [] \<and>
   items svg_page THEME_STORAGE_KEY = None \<and>
   items (snd (snd (handleKeyboardShortcut ctrl_shift_L svg_page))) THEME_STORAGE_KEY = Some ''dark'' \<and>
   items svg_page MINTLIFY_THEME_KEY = None \<and>
   items (snd (snd (handleKeyboardShortcut ctrl_shift_L svg_page))) MINTLIFY_THEME_KEY = Some ''dark''\<close>
  by (simp add: click_eval_defs eval_defs)

text \<open>
  C4. When the \<open>try\<close> block of \<open>toggleTheme\<close> completes, both storage keys hold
  the same value, the name of the new theme. The same holds after the shortcut when
  \<open>clickThemeToggleButton\<close> returns \<open>false\<close> and the handler falls back to
  \<open>toggleTheme\<close>.
\<close>

theorem toggleTheme_storage_keys_agree:
  "(fst (toggleTheme_try s) = None \<longrightarrow>
      (\<exists>d. isDark s = Inr d \<and>
           items (snd (toggleTheme s)) THEME_STORAGE_KEY = Some (theme_name (\<not> d)) \<and>
           items (snd (toggleTheme s)) MINTLIFY_THEME_KEY = Some (theme_name (\<not> d)))) \<and>
   (is_shortcut event \<and> fst (clickThemeToggleButton s) = Inr False \<and>
    fst (toggleTheme_try s) = None \<longrightarrow>
      (\<exists>d. isDark s = Inr d \<and>
           items (snd (snd (handleKeyboardShortcut event s))) THEME_STORAGE_KEY =
             Some (theme_name (\<not> d)) \<and>
           items (snd (snd (handleKeyboardShortcut event s))) MINTLIFY_THEME_KEY =
             Some (theme_name (\<not> d))))"
proof -
  have toggle: "\<exists>d. isDark s = Inr d \<and>
           items (snd (toggleTheme s)) THEME_STORAGE_KEY = Some (theme_name (\<not> d)) \<and>
           items (snd (toggleTheme s)) MINTLIFY_THEME_KEY = Some (theme_name (\<not> d))"
    if ok: "fst (toggleTheme_try s) = None"
  proof (cases "body_classList s")
    case None
    then show ?thesis
      using ok by (simp add: toggleTheme_try_no_body split: sum.splits)
  next
    case (Some cs)
    obtain d where d: "isDark s = Inr d"
      using Some by (simp add: isDark_with_body)
    show ?thesis
      using ok d
      by (simp add: toggleTheme_def try_catch_def toggleTheme_try_with_body [OF Some d]
          split: option.splits)
  qed
  have "snd (snd (handleKeyboardShortcut event s)) = snd (toggleTheme s)"
    if "is_shortcut event" and "fst (clickThemeToggleButton s) = Inr False"
  proof -
    have "clickThemeToggleButton s = (Inr False, s)"
      using that(2) clickThemeToggleButton_result [of s] by auto
    then show ?thesis
      using that(1) by (simp add: handleKeyboardShortcut_def split: prod.splits)
  qed
  then show ?thesis
    using toggle by auto
qed

text \<open>The theorem of C4 on the default page, directly and through the shortcut.\<close>

theorem toggleTheme_storage_keys_agree_witness:
  "is_shortcut ctrl_shift_L \<and> fst (clickThemeToggleButton default_page) = Inr False \<and>
   fst (toggleTheme_try default_page) = None \<and> isDark default_page = Inr False \<and>
   items (snd (toggleTheme default_page)) THEME_STORAGE_KEY = Some ''dark'' \<and>
   items (snd (toggleTheme default_page)) MINTLIFY_THEME_KEY = Some ''dark'' \<and>
   items (snd (snd (handleKeyboardShortcut ctrl_shift_L default_page))) THEME_STORAGE_KEY =
     Some ''dark'' \<and>
   items (snd (snd (handleKeyboardShortcut ctrl_shift_L default_page))) MINTLIFY_THEME_KEY =
     Some ''dark''"
  using toggleTheme_storage_keys_agree [of default_page ctrl_shift_L]
  by (simp add: click_eval_defs eval_defs)

section \<open>Exceptions\<close>

lemma toggleTheme_try_console: "console (snd (toggleTheme_try s)) = console s"
proof (cases "body_classList s")
  case None
  then show ?thesis
    by (simp add: toggleTheme_try_no_body flip_presentation_frame split: sum.splits)
next
  case (Some cs)
  obtain d where d: "isDark s = Inr d"
    using Some by (simp add: isDark_with_body)
  show ?thesis
    by (simp add: toggleTheme_try_with_body [OF Some d] flip_presentation_frame
        split: option.splits)
qed

lemma applySavedTheme_try_console: "console (snd (applySavedTheme_try s)) = console s"
  by (simp add: applySavedTheme_try_def stmt_defs split: sum.splits option.splits)

text \<open>
  C7, as amended. No error leaves \<open>toggleTheme\<close>, \<open>applySavedTheme\<close> or
  \<open>clickThemeToggleButton\<close>, whatever the page and whatever the storage and the
  document raise. \<open>toggleTheme\<close> and \<open>applySavedTheme\<close> log one warning with the
  error caught. \<open>clickThemeToggleButton\<close> logs nothing. In its first loop an error of
  \<open>querySelector\<close> or of \<open>click()\<close> makes it go on with the next selector; after
  the first loop an error of \<open>querySelectorAll\<close>, or of \<open>click()\<close> on the first
  button that reaches it, makes it return \<open>false\<close> with the page as it was. In all, it
  clicks the target of the search and returns \<open>true\<close>, or changes nothing and returns
  \<open>false\<close>.
\<close>

theorem exceptions_are_caught:
  "fst (toggleTheme s) = None \<and>
   fst (applySavedTheme s) = None \<and>
   (\<exists>found. fst (clickThemeToggleButton s) = Inr found) \<and>
   (\<forall>e. fst (toggleTheme_try s) = Some e \<longrightarrow>
      console (snd (toggleTheme s)) = console s @ [(''Theme toggle failed:'', e)]) \<and>
   (\<forall>e. fst (applySavedTheme_try s) = Some e \<longrightarrow>
      console (snd (applySavedTheme s)) = console s @ [(''Could not apply saved theme:'', e)]) \<and>
   console (snd (clickThemeToggleButton s)) = console s \<and>
   (querySelector s selector = Inl e1 \<or>
    querySelector s selector = Inr (Some button) \<and> offsetParent button \<noteq> Null \<and>
    click_raises button = Some e1 \<longrightarrow>
      try_selectors (selector # rest) s = try_selectors rest s) \<and>
   (fst (try_selectors selectors s) = False \<and>
    (querySelectorAll s ''button'' = Inl e2 \<or>
     querySelectorAll s ''button'' = Inr allButtons \<and>
     find (button_hit s) allButtons = Some button2 \<and> click_raises button2 = Some e2) \<longrightarrow>
      clickThemeToggleButton s = (Inr False, s)) \<and>
   clickThemeToggleButton s =
     (case search_target s of
        Some target \<Rightarrow> (Inr True, s\<lparr>clicked := clicked s @ [node target]\<rparr>)
      | None \<Rightarrow> (Inr False, s))"
proof -
  have a: "fst (toggleTheme s) = None" "fst (applySavedTheme s) = None"
    by (simp_all add: toggleTheme_def applySavedTheme_def try_catch_warn(1))
  have b: "console (snd (toggleTheme s)) = console s @ [(''Theme toggle failed:'', e)]"
    if "fst (toggleTheme_try s) = Some e" for e
    using that by (simp add: toggleTheme_def try_catch_warn(2) toggleTheme_try_console)
  have c: "console (snd (applySavedTheme s)) = console s @ [(''Could not apply saved theme:'', e)]"
    if "fst (applySavedTheme_try s) = Some e" for e
    using that by (simp add: applySavedTheme_def try_catch_warn(2) applySavedTheme_try_console)
  have d: "(\<exists>found. fst (clickThemeToggleButton s) = Inr found) \<and>
      console (snd (clickThemeToggleButton s)) = console s"
    using clickThemeToggleButton_result [of s] by auto
  have e: "try_selectors (selector # rest) s = try_selectors rest s"
    if "querySelector s selector = Inl e1 \<or>
        querySelector s selector = Inr (Some button) \<and> offsetParent button \<noteq> Null \<and>
        click_raises button = Some e1"
    using that by (rule try_selectors_continue)
  have f: "clickThemeToggleButton s = (Inr False, s)"
    if "fst (try_selectors selectors s) = False \<and>
        (querySelectorAll s ''button'' = Inl e2 \<or>
         querySelectorAll s ''button'' = Inr allButtons \<and>
         find (button_hit s) allButtons = Some button2 \<and> click_raises button2 = Some e2)"
  proof -
    have "List.map_filter (selector_target s) selectors = []"
      using that by (auto simp add: try_selectors_search split: list.splits)
    then have "search_target s = None"
      using that by (auto simp add: search_target_def)
    then show ?thesis
      by (simp add: clickThemeToggleButton_search)
  qed
  show ?thesis
    using a b c d e f clickThemeToggleButton_search [of s] by blast
qed

text \<open>
  The theorem of C7 on the page whose storage refuses every access, on the page where
  \<open>click()\<close> raises on the icon that the fifth selector finds, and on the page where
  \<open>click()\<close> raises on the only button.
\<close>

theorem exceptions_are_caught_witness:
  \<open>fst (toggleTheme_try blocked_page) = Some (DOMException ''SecurityError'') \<and>
   fst (applySavedTheme_try blocked_page) = Some (DOMException ''SecurityError'') \<and>
   fst (toggleTheme blocked_page) = None \<and>
   fst (applySavedTheme blocked_page) = None \<and>
   console (snd (toggleTheme blocked_page)) =
     [(''Theme toggle failed:'', DOMException ''SecurityError'')] \<and>
   console (snd (applySavedTheme blocked_page)) =
     [(''Could not apply saved theme:'', DOMException ''SecurityError'')] \<and>
   querySelector icon_and_button_page ''[data-testid*="theme"]'' = Inr (Some svg_icon) \<and>
   offsetParent svg_icon \<noteq> Null \<and> click_raises svg_icon = Some TypeError \<and>
   try_selectors
     [''[data-testid*="theme"]'', ''[data-testid*="toggle"]'', ''.theme-toggle'']
     icon_and_button_page =
   try_selectors [''[data-testid*="toggle"]'', ''.theme-toggle''] icon_and_button_page \<and>
   try_selectors [''[data-testid*="toggle"]'', ''.theme-toggle''] icon_and_button_page =
     (True, icon_and_button_page\<lparr>clicked := [7]\<rparr>) \<and>
   fst (try_selectors selectors foreign_button_page) = False \<and>
   querySelectorAll foreign_button_page ''button'' = Inr [foreign_button] \<and>
   find (button_hit foreign_button_page) [foreign_button] = Some foreign_button \<and>
   click_raises foreign_button = Some TypeError \<and>
   clickThemeToggleButton foreign_button_page = (Inr False, foreign_button_page)\<close>
proof -
  have a: "fst (toggleTheme_try blocked_page) = Some (DOMException ''SecurityError'')"
    by (simp add: eval_defs)
  have b: "fst (applySavedTheme_try blocked_page) = Some (DOMException ''SecurityError'')"
    by (simp add: applySavedTheme_try_def savedTheme_def localStorage_getItem_def
        blocked_page_def default_page_def)
  have c: "console blocked_page = []"
    by (simp add: blocked_page_def default_page_def)
  have d: \<open>querySelector icon_and_button_page ''[data-testid*="theme"]'' = Inr (Some svg_icon) \<and>
      offsetParent svg_icon \<noteq> Null \<and> click_raises svg_icon = Some TypeError\<close>
    by (simp add: icon_and_button_page_def svg_icon_def)
  have e: \<open>try_selectors [''[data-testid*="toggle"]'', ''.theme-toggle''] icon_and_button_page =
      (True, icon_and_button_page\<lparr>clicked := [7]\<rparr>)\<close>
    by (simp add: click_eval_defs default_page_def)
  have f: "fst (try_selectors selectors foreign_button_page) = False \<and>
      querySelectorAll foreign_button_page ''button'' = Inr [foreign_button] \<and>
      find (button_hit foreign_button_page) [foreign_button] = Some foreign_button \<and>
      click_raises foreign_button = Some TypeError"
    by (simp add: click_eval_defs default_page_def)
  show ?thesis
    using a b c d e f
      exceptions_are_caught [of blocked_page]
      exceptions_are_caught
        [where s = icon_and_button_page and selector = \<open>''[data-testid*="theme"]''\<close>
           and button = svg_icon and ?e1.0 = TypeError
           and rest = \<open>[''[data-testid*="toggle"]'', ''.theme-toggle'']\<close>]
      exceptions_are_caught
        [where s = foreign_button_page and allButtons = "[foreign_button]"
           and ?button2.0 = foreign_button and ?e2.0 = TypeError]
    by simp
qed

text \<open>
  C7 as stated fails on the page with the icon: \<open>click()\<close> raises inside
  \<open>clickThemeToggleButton\<close>, the error is caught, and the console stays empty.
\<close>

theorem clickThemeToggleButton_silent_counterexample:
  \<open>querySelector svg_page ''[data-testid*="theme"]'' = Inr (Some svg_icon) \<and>
   offsetParent svg_icon \<noteq> Null \<and>
   click svg_icon svg_page = (Some TypeError, svg_page) \<and>
   fst (clickThemeToggleButton svg_page) = Inr False \<and>
   console svg_page = [] \<and>
   console (snd (clickThemeToggleButton svg_page)) = []\<close>
  by (simp add: click_eval_defs default_page_def)

end
